theory Spec2Isabelle
  imports Complex_Main "HOL-Library.Sublist" "HOL-Library.Word"
begin

section \<open>Python values\<close>

text \<open>
  The handlers pass untyped dictionaries, tuples and lists around. A Python \<open>str\<close> is
  modelled by the list of its UTF-8 bytes (\<open>string\<close>), a Python \<open>float\<close> by a real.
  A dictionary with string keys is an association list in insertion order.
\<close>

datatype py_value =
    PNone
  | PBool bool
  | PInt int
  | PFloat real
  | PStr string
  | PBytes string
  | PList "py_value list"
  | PTuple "py_value list"
  | PDict "(string \<times> py_value) list"

text \<open>Python truthiness, as \<open>if x:\<close> and \<open>not x\<close> evaluate it.\<close>

fun py_truthy :: "py_value \<Rightarrow> bool" where
  "py_truthy PNone = False"
| "py_truthy (PBool b) = b"
| "py_truthy (PInt i) = (i \<noteq> 0)"
| "py_truthy (PFloat r) = (r \<noteq> 0)"
| "py_truthy (PStr s) = (s \<noteq> [])"
| "py_truthy (PBytes s) = (s \<noteq> [])"
| "py_truthy (PList xs) = (xs \<noteq> [])"
| "py_truthy (PTuple xs) = (xs \<noteq> [])"
| "py_truthy (PDict kvs) = (kvs \<noteq> [])"

datatype exn =
    Exception string
  | KeyError string
  | TypeError
  | AttributeError
  | IndexError
  | ValkeyError
  | BedrockError
  | DatabaseError

text \<open>\<open>d[k]\<close> on a value: KeyError when the key is absent, TypeError on a non-dictionary.\<close>

fun py_getitem :: "py_value \<Rightarrow> string \<Rightarrow> exn + py_value" where
  "py_getitem (PDict kvs) k = (case map_of kvs k of None \<Rightarrow> Inl (KeyError k) | Some v \<Rightarrow> Inr v)"
| "py_getitem _ k = Inl TypeError"

section \<open>util/postgres_validation.py\<close>

definition POSTGRES_RESERVED_WORDS :: "string list" where
  "POSTGRES_RESERVED_WORDS =
   [''all'', ''analyse'', ''analyze'', ''and'', ''any'', ''array'', ''as'', ''asc'', ''asymmetric'',
    ''authorization'', ''binary'', ''both'', ''case'', ''cast'', ''check'', ''collate'', ''collation'',
    ''column'', ''concurrently'', ''constraint'', ''create'', ''cross'', ''current_catalog'',
    ''current_date'', ''current_role'', ''current_schema'', ''current_time'', ''current_timestamp'',
    ''current_user'', ''default'', ''deferrable'', ''desc'', ''distinct'', ''do'', ''else'', ''end'',
    ''except'', ''false'', ''fetch'', ''for'', ''foreign'', ''freeze'', ''from'', ''full'', ''grant'',
    ''group'', ''having'', ''ilike'', ''in'', ''initially'', ''inner'', ''intersect'', ''into'', ''is'',
    ''isnull'', ''join'', ''lateral'', ''leading'', ''left'', ''like'', ''limit'', ''localtime'',
    ''localtimestamp'', ''natural'', ''not'', ''notnull'', ''null'', ''offset'', ''on'', ''only'', ''or'',
    ''order'', ''outer'', ''overlaps'', ''placing'', ''primary'', ''references'', ''returning'', ''right'',
    ''select'', ''session_user'', ''similar'', ''some'', ''symmetric'', ''system_user'', ''table'',
    ''tablesample'', ''then'', ''to'', ''trailing'', ''true'', ''union'', ''unique'', ''user'', ''using'',
    ''variadic'', ''verbose'', ''when'', ''where'', ''window'', ''with'']"

definition is_upper :: "char \<Rightarrow> bool" where
  "is_upper c \<longleftrightarrow> 65 \<le> (of_char c :: nat) \<and> (of_char c :: nat) \<le> 90"

definition is_lower :: "char \<Rightarrow> bool" where
  "is_lower c \<longleftrightarrow> 97 \<le> (of_char c :: nat) \<and> (of_char c :: nat) \<le> 122"

definition is_digit :: "char \<Rightarrow> bool" where
  "is_digit c \<longleftrightarrow> 48 \<le> (of_char c :: nat) \<and> (of_char c :: nat) \<le> 57"

text \<open>The character classes \<open>[a-zA-Z_]\<close> and \<open>[a-zA-Z0-9_$]\<close> of the pattern.\<close>

definition ident_start :: "char \<Rightarrow> bool" where
  "ident_start c \<longleftrightarrow> is_lower c \<or> is_upper c \<or> c = CHR ''_''"

definition ident_part :: "char \<Rightarrow> bool" where
  "ident_part c \<longleftrightarrow> is_lower c \<or> is_upper c \<or> is_digit c \<or> c = CHR ''_'' \<or> c = CHR ''$''"

text \<open>
  Without \<open>re.MULTILINE\<close>, \<open>$\<close> matches at the end of the string and also just before a
  newline that is the last character: the text the pattern has to consume is the name
  without one final newline.
\<close>

definition before_final_newline :: "string \<Rightarrow> string" where
  "before_final_newline s = (if s \<noteq> [] \<and> last s = CHR 0x0A then butlast s else s)"

text \<open>\<open>re.match(r"^(?!pg_)[a-zA-Z_][a-zA-Z0-9_$]*$", name)\<close>.\<close>

definition matches_pattern :: "string \<Rightarrow> bool" where
  "matches_pattern name \<longleftrightarrow>
     \<not> prefix ''pg_'' name \<and>
     (case before_final_newline name of
        [] \<Rightarrow> False
      | c # cs \<Rightarrow> ident_start c \<and> list_all ident_part cs)"

text \<open>\<open>str.lower\<close> on the ASCII range.\<close>

definition lower_char :: "char \<Rightarrow> char" where
  "lower_char c = (if is_upper c then char_of ((of_char c :: nat) + 32) else c)"

definition lower :: "string \<Rightarrow> string" where
  "lower s = map lower_char s"

definition is_valid_postgres_identifier :: "string \<Rightarrow> bool" where
  "is_valid_postgres_identifier name =
     (if \<not> matches_pattern name then False
      else if length name > 63 then False
      else if lower name \<in> set POSTGRES_RESERVED_WORDS then False
      else True)"

section \<open>External collaborators and mutable state\<close>

text \<open>
  The three prompt templates of \<open>TextToSQL\<close>, identified by the values spliced into them:
  the follow-up classification prompt (the conversation), the SQL generation prompt
  (query and schema) and the description prompt (SQL, schema, result rows).
\<close>

datatype bedrock_prompt =
    FollowUpPrompt string
  | SqlPrompt string string
  | TextPrompt py_value string py_value

text \<open>One document of a vector search answer: its key, the returned fields, the distance.\<close>

record doc =
  doc_id :: string
  doc_sql_statement :: "string option"
  doc_text_response :: "string option"
  doc_query_results :: "string option"
  doc_prompt_text :: "string option"
  doc_schema_text :: "string option"
  doc_column_names :: "string option"
  doc_score :: real

text \<open>The hash written by \<open>CacheService.add\<close> under one key.\<close>

record cache_mapping =
  m_vector :: "8 word list"
  m_sql_statement :: py_value
  m_text_response :: py_value
  m_query_results :: py_value
  m_schema_text :: py_value
  m_prompt_text :: py_value
  m_column_names :: py_value

text \<open>The cache cluster's keyspace: the hash stored under a key and its time to live in seconds.\<close>

type_synonym keyspace = "string \<rightharpoonup> cache_mapping \<times> nat option"

text \<open>One row of the \<open>embeddings\<close> table (the columns the indexer writes).\<close>

record embedding_row =
  embedding :: "real list"
  database_name :: string
  schema_name :: string
  table_name :: string
  embedding_text :: string
  embedding_hash :: string

text \<open>
  Everything outside the repository is a parameter: the Bedrock models, the secrets
  manager, the PostgreSQL server and driver, the cache engine's search, and the library
  functions \<open>json\<close>, \<open>ast.literal_eval\<close>, \<open>str\<close>, \<open>hashlib.sha256\<close> and the C
  conversion of a double to a single-precision bit pattern. A call that raises is \<open>Inl\<close>
  (or \<open>None\<close> where the code catches whatever is raised).
\<close>

record world =
  invoke_model :: "bedrock_prompt \<Rightarrow> exn + string"
  parse_follow_up :: "string \<Rightarrow> py_value option"
  literal_eval :: "string \<Rightarrow> py_value option"
  json_loads :: "string \<Rightarrow> py_value option"
  json_text :: "py_value \<Rightarrow> string"
  py_str :: "py_value \<Rightarrow> string"
  sha256_hexdigest :: "string \<Rightarrow> string"
  float32 :: "real \<Rightarrow> 32 word"
  titan_embedding :: "string \<Rightarrow> exn + real list"
  get_secret_value :: "string \<Rightarrow> exn option"
  psycopg_connect :: "exn option"
  cursor_execute :: "py_value \<Rightarrow> py_value \<Rightarrow> exn + (py_value list \<times> string list) option"
  embeddings_table :: "embedding_row list"
  cosine_distance :: "real list \<Rightarrow> real list \<Rightarrow> real"
  cluster_reachable :: bool
  ft_search :: "keyspace \<Rightarrow> 8 word list \<Rightarrow> nat \<Rightarrow> doc list"

text \<open>The calls that leave the process, in the order they are made.\<close>

datatype effect =
    BedrockInvoke bedrock_prompt
  | EmbeddingInvoke string
  | SecretGet string
  | DbConnect
  | DbQueryEmbeddings
  | DbExecute py_value py_value
  | DbClose
  | CacheConnect string
  | CacheSearch
  | CacheHset string
  | CacheExpire string nat

text \<open>
  The module-level \<open>cache\<close> object (\<open>valkey_client\<close> is \<open>None\<close> or a client), the cluster's
  search index and keyspace, the error log and the trace of external calls.
\<close>

record state =
  valkey_client :: bool
  index_exists :: bool
  keys :: keyspace
  error_log :: "string list"
  trace :: "effect list"

definition emit :: "effect \<Rightarrow> state \<Rightarrow> state" where
  "emit e s = s\<lparr>trace := trace s @ [e]\<rparr>"

definition log_error :: "string \<Rightarrow> state \<Rightarrow> state" where
  "log_error msg s = s\<lparr>error_log := error_log s @ [msg]\<rparr>"

section \<open>services/embed.py\<close>

definition get_embedding :: "world \<Rightarrow> string \<Rightarrow> state \<Rightarrow> (exn + real list) \<times> state" where
  "get_embedding w text s =
     (case titan_embedding w text of
        Inl e \<Rightarrow> (Inl e, log_error ''Error generating embedding'' (emit (EmbeddingInvoke text) s))
      | Inr v \<Rightarrow> (Inr v, emit (EmbeddingInvoke text) s))"

section \<open>services/postgres.py\<close>

definition set_secret :: "world \<Rightarrow> string \<Rightarrow> state \<Rightarrow> (exn + unit) \<times> state" where
  "set_secret w secret_id s =
     (case get_secret_value w secret_id of
        Some e \<Rightarrow> (Inl e, log_error ''Error retrieving secret'' (emit (SecretGet secret_id) s))
      | None \<Rightarrow> (Inr (), emit (SecretGet secret_id) s))"

definition connect_to_db :: "world \<Rightarrow> state \<Rightarrow> (exn + unit) \<times> state" where
  "connect_to_db w s =
     (case psycopg_connect w of
        Some e \<Rightarrow> (Inl e, log_error ''Error connecting to database or retrieving secret'' (emit DbConnect s))
      | None \<Rightarrow> (Inr (), emit DbConnect s))"

section \<open>services/text\_to\_sql.py\<close>

text \<open>The first occurrence of a pattern: the text before it and the text after it.\<close>

fun split_on :: "string \<Rightarrow> string \<Rightarrow> (string \<times> string) option" where
  "split_on pat [] = (if pat = [] then Some ([], []) else None)"
| "split_on pat (c # cs) =
     (if prefix pat (c # cs) then Some ([], drop (length pat) (c # cs))
      else map_option (\<lambda>(a, b). (c # a, b)) (split_on pat cs))"

text \<open>
  \<open>re.compile(r"<tag>(.*?)</tag>", re.DOTALL).findall(text)\<close>: the scan takes the first
  opening tag, the lazy group stops at the first closing tag after it, and the scan goes
  on behind that closing tag. Without a closing tag behind the first opening tag there is
  no match at all.
\<close>

function findall_tag :: "string \<Rightarrow> string \<Rightarrow> string \<Rightarrow> string list" where
  "findall_tag otag ctag src =
     (if ctag = [] then []
      else case split_on otag src of
        None \<Rightarrow> []
      | Some (before, rest) \<Rightarrow>
          (case split_on ctag rest of
             None \<Rightarrow> []
           | Some (inner, rest') \<Rightarrow> inner # findall_tag otag ctag rest'))"
  by pat_completeness auto
termination
proof (relation "measure (\<lambda>(otag, ctag, src). length src)")
  show "wf (measure (\<lambda>(otag, ctag, src). length src))" by simp
next
  fix otag ctag src :: string and x2 before rest y inner rest'
  assume ne: "ctag \<noteq> []"
    and a: "split_on otag src = Some x2" "(before, rest) = x2"
    and b: "split_on ctag rest = Some y" "(inner, rest') = y"
  have len: "split_on pat s = Some (u, v) \<Longrightarrow> length u + length pat + length v = length s"
    for pat s :: string and u v
  proof (induction s arbitrary: u)
    case Nil
    then show ?case by (simp split: if_splits)
  next
    case (Cons c cs)
    show ?case
    proof (cases "prefix pat (c # cs)")
      case True
      then have "length pat \<le> length (c # cs)" by (rule prefix_length_le)
      with True Cons.prems show ?thesis by auto
    next
      case False
      with Cons.prems obtain u' where "split_on pat cs = Some (u', v)" and "u = c # u'"
        by auto
      with Cons.IH show ?thesis by fastforce
    qed
  qed
  from a have "length before + length otag + length rest = length src"
    using len by metis
  moreover from b have "length inner + length ctag + length rest' = length rest"
    using len by metis
  ultimately show "((otag, ctag, rest'), (otag, ctag, src))
      \<in> measure (\<lambda>(otag, ctag, src). length src)"
    using ne by (cases ctag) simp_all
qed

definition call_bedrock :: "world \<Rightarrow> bedrock_prompt \<Rightarrow> state \<Rightarrow> (exn + string) \<times> state" where
  "call_bedrock w prompt s = (invoke_model w prompt, emit (BedrockInvoke prompt) s)"

text \<open>
  \<open>check_if_follow_up_question\<close>. The model call is outside the \<open>try\<close>; the extraction of
  the JSON object and \<open>json.loads\<close> are inside it (\<open>parse_follow_up\<close>, \<open>None\<close> when anything
  there raises), and a failure falls back to "not a follow-up".
\<close>

definition check_if_follow_up_question ::
  "world \<Rightarrow> string \<Rightarrow> state \<Rightarrow> (exn + py_value) \<times> state" where
  "check_if_follow_up_question w full_prompt s =
     (case call_bedrock w (FollowUpPrompt full_prompt) s of
        (Inl e, s1) \<Rightarrow> (Inl e, s1)
      | (Inr response, s1) \<Rightarrow>
          (case parse_follow_up w response of
             Some result \<Rightarrow> (Inr result, s1)
           | None \<Rightarrow>
               (Inr (PDict [(''is_follow_up'', PBool False), (''answer'', PNone)]),
                log_error ''Error parsing follow-up check response'' s1)))"

definition no_sql_response :: py_value where
  "no_sql_response =
     PDict [(''statusCode'', PInt 500),
            (''body'', PDict [(''response'',
               PStr ''Unable to generate SQL for the provided prompt, please try again.'')]),
            (''headers'', PDict [(''Content-Type'', PStr ''application/json'')])]"

definition get_sql_from_bedrock ::
  "world \<Rightarrow> string \<Rightarrow> string \<Rightarrow> state \<Rightarrow> (exn + py_value) \<times> state" where
  "get_sql_from_bedrock w query schema s =
     (case call_bedrock w (SqlPrompt query schema) s of
        (Inl e, s1) \<Rightarrow> (Inl e, s1)
      | (Inr text_content, s1) \<Rightarrow>
          (let sql_statements = findall_tag ''<sql>'' ''</sql>'' text_content;
               params_match = findall_tag ''<params>'' ''</params>'' text_content
           in if sql_statements = [] then (Inr no_sql_response, s1)
              else if params_match \<noteq> [] then
                (case literal_eval w (hd params_match) of
                   Some params \<Rightarrow> (Inr (PTuple [PStr (hd sql_statements), params]), s1)
                 | None \<Rightarrow>
                     (Inr (PTuple [PStr (hd sql_statements), PList []]),
                      log_error ''Raw parameters string''
                        (log_error ''Error parsing parameters'' s1)))
              else (Inr (PTuple [PStr (hd sql_statements), PList []]), s1)))"

text \<open>
  \<open>execute_sql\<close>: a 2-tuple is unpacked into statement and parameters, anything else is
  passed to the cursor as the statement. Without a cursor description there are no rows.
\<close>

definition execute_sql ::
  "world \<Rightarrow> py_value \<Rightarrow> state \<Rightarrow> (exn + py_value \<times> py_value) \<times> state" where
  "execute_sql w sql_data s =
     (let (sql, params) = (case sql_data of PTuple [a, b] \<Rightarrow> (a, b) | _ \<Rightarrow> (sql_data, PList []))
      in case cursor_execute w sql params of
           Inl e \<Rightarrow> (Inl e, emit (DbExecute sql params) s)
         | Inr None \<Rightarrow> (Inr (PList [], PList []), emit (DbExecute sql params) s)
         | Inr (Some (rows, names)) \<Rightarrow>
             (Inr (PList rows, PList (map PStr names)), emit (DbExecute sql params) s))"

definition describe_results_from_query ::
  "world \<Rightarrow> py_value \<Rightarrow> py_value \<times> py_value \<Rightarrow> string \<Rightarrow> state \<Rightarrow> (exn + py_value) \<times> state" where
  "describe_results_from_query w sql_statements results_tuple schema s =
     (let (results, column_names) = results_tuple
      in case call_bedrock w (TextPrompt sql_statements schema results) s of
           (Inl e, s1) \<Rightarrow> (Inl e, s1)
         | (Inr text_content, s1) \<Rightarrow>
             (Inr (PDict [(''statusCode'', PInt 200),
                          (''body'', PDict [(''response'', PStr text_content),
                                            (''query'', sql_statements),
                                            (''query_results'', results),
                                            (''column_names'', column_names),
                                            (''cache_id'', PNone)]),
                          (''headers'', PDict [(''Content-Type'', PStr ''application/json'')])]),
              s1))"

section \<open>services/cache.py\<close>

text \<open>
  \<open>array("f", vector).tobytes()\<close>: every element is converted to a single-precision bit
  pattern (\<open>float32\<close> of the world) and laid out in the machine's byte order, little-endian
  on the platforms the function runs on.
\<close>

definition float32_bytes :: "32 word \<Rightarrow> 8 word list" where
  "float32_bytes x = map (\<lambda>i. ucast (drop_bit (8 * i) x)) [0, 1, 2, 3]"

definition vector_to_bytes :: "world \<Rightarrow> real list \<Rightarrow> 8 word list" where
  "vector_to_bytes w vector = concat (map (\<lambda>x. float32_bytes (float32 w x)) vector)"

definition hash_key :: "world \<Rightarrow> string \<Rightarrow> string \<Rightarrow> string" where
  "hash_key w pfx key = pfx @ '':'' @ sha256_hexdigest w key"

text \<open>
  \<open>json.dumps\<close> raises TypeError on a value it cannot serialise; of the values modelled
  here these are the ones containing a \<open>bytes\<close> object.
\<close>

fun json_serializable :: "py_value \<Rightarrow> bool" where
  "json_serializable (PBytes b) = False"
| "json_serializable (PList xs) = (\<forall>x \<in> set xs. json_serializable x)"
| "json_serializable (PTuple xs) = (\<forall>x \<in> set xs. json_serializable x)"
| "json_serializable (PDict kvs) = (\<forall>v \<in> set (map snd kvs). json_serializable v)"
| "json_serializable _ = True"

definition json_dumps :: "world \<Rightarrow> py_value \<Rightarrow> exn + py_value" where
  "json_dumps w v = (if json_serializable v then Inr (PStr (json_text w v)) else Inl TypeError)"

fun is_list_or_tuple :: "py_value \<Rightarrow> bool" where
  "is_list_or_tuple (PList xs) = True"
| "is_list_or_tuple (PTuple xs) = True"
| "is_list_or_tuple _ = False"

fun is_str :: "py_value \<Rightarrow> bool" where
  "is_str (PStr s) = True"
| "is_str _ = False"

text \<open>The client encodes \<open>str\<close>, \<open>bytes\<close>, \<open>int\<close> and \<open>float\<close> values and raises DataError,
  a ValkeyError, on any other.\<close>

fun valkey_encodable :: "py_value \<Rightarrow> bool" where
  "valkey_encodable (PStr s) = True"
| "valkey_encodable (PBytes b) = True"
| "valkey_encodable (PInt i) = True"
| "valkey_encodable (PFloat r) = True"
| "valkey_encodable _ = False"

text \<open>The \<open>data\<close> dictionary of \<open>add\<close>; \<open>column_names\<close> is read with \<open>.get\<close> and may be absent.\<close>

record cache_data =
  d_sql_statement :: py_value
  d_text_response :: py_value
  d_query_results :: py_value
  d_column_names :: "py_value option"
  d_schema_text :: py_value
  d_prompt_text :: py_value

text \<open>One element of the list \<open>search\<close> returns.\<close>

record cache_entry =
  e_id :: string
  e_sql_statement :: "string option"
  e_text_response :: "string option"
  e_query_results :: "string option"
  e_prompt_text :: "string option"
  e_schema_text :: "string option"
  e_column_names :: "string option"
  e_vector_score :: real

definition setup_index :: "state \<Rightarrow> state" where
  "setup_index s = (if index_exists s then s else s\<lparr>index_exists := True\<rparr>)"

text \<open>
  \<open>connect_to_cluster\<close>: the client constructor discovers the cluster's nodes and raises
  when none answers, so \<open>valkey_client\<close> keeps its previous value; every exception is
  caught and logged.
\<close>

definition connect_to_cluster :: "world \<Rightarrow> string \<Rightarrow> state \<Rightarrow> state" where
  "connect_to_cluster w memdb_endpoint s =
     (if cluster_reachable w
      then setup_index ((emit (CacheConnect memdb_endpoint) s)\<lparr>valkey_client := True\<rparr>)
      else log_error ''Error connecting to Valkey cluster'' (emit (CacheConnect memdb_endpoint) s))"

text \<open>Python's \<open>round(x, 2)\<close>: to the nearest hundredth, a tie to the even one.\<close>

definition py_round2 :: "real \<Rightarrow> real" where
  "py_round2 x =
     (let y = x * 100; f = \<lfloor>y\<rfloor>
      in real_of_int (if y - of_int f < 1 / 2 then f
                      else if y - of_int f > 1 / 2 then f + 1
                      else if even f then f else f + 1) / 100)"

definition flatten_doc :: "doc \<Rightarrow> cache_entry" where
  "flatten_doc d =
     \<lparr>e_id = doc_id d, e_sql_statement = doc_sql_statement d,
      e_text_response = doc_text_response d, e_query_results = doc_query_results d,
      e_prompt_text = doc_prompt_text d, e_schema_text = doc_schema_text d,
      e_column_names = doc_column_names d, e_vector_score = py_round2 (1 - doc_score d)\<rparr>"

text \<open>
  \<open>search\<close> has no exception handler: without a client the attribute access on \<open>None\<close>
  raises, and with a client whose cluster does not answer the command raises.
\<close>

definition search :: "world \<Rightarrow> real list \<Rightarrow> nat \<Rightarrow> state \<Rightarrow> (exn + cache_entry list) \<times> state" where
  "search w vector top_k s =
     (let vector_bytes = vector_to_bytes w vector
      in if \<not> valkey_client s then (Inl AttributeError, s)
         else if \<not> cluster_reachable w then (Inl ValkeyError, emit CacheSearch s)
         else (Inr (map flatten_doc (ft_search w (keys s) vector_bytes top_k)), emit CacheSearch s))"

text \<open>
  \<open>add\<close>: the serialisations come first, then the test of \<open>text_response\<close>, then the
  writes inside \<open>try ... except ValkeyError\<close>.
\<close>

definition add ::
  "world \<Rightarrow> string \<Rightarrow> real list \<Rightarrow> cache_data \<Rightarrow> string \<Rightarrow> state \<Rightarrow> (exn + bool) \<times> state" where
  "add w key vector data pfx s =
     (let key = hash_key w pfx key;
          vector_bytes = vector_to_bytes w vector
      in case (if is_list_or_tuple (d_sql_statement data)
               then json_dumps w (d_sql_statement data) else Inr (d_sql_statement data)) of
           Inl e \<Rightarrow> (Inl e, s)
         | Inr sql_statement \<Rightarrow>
             (let query_results = (if is_str (d_query_results data) then d_query_results data
                                   else PStr (py_str w (d_query_results data)));
                  column_names = (case d_column_names data of None \<Rightarrow> PList [] | Some c \<Rightarrow> c)
              in case (if is_str column_names then Inr column_names
                       else json_dumps w column_names) of
                   Inl e \<Rightarrow> (Inl e, s)
                 | Inr column_names \<Rightarrow>
                     (let mapping = \<lparr>m_vector = vector_bytes, m_sql_statement = sql_statement,
                                     m_text_response = d_text_response data,
                                     m_query_results = query_results,
                                     m_schema_text = d_schema_text data,
                                     m_prompt_text = d_prompt_text data,
                                     m_column_names = column_names\<rparr>
                      in if \<not> py_truthy (d_text_response data)
                         then (Inr False,
                               log_error ''Unable to add to cache, missing SQL statement.'' s)
                         else if \<not> valkey_client s then (Inl AttributeError, s)
                         else if \<not> cluster_reachable w
                              \<or> \<not> (valkey_encodable sql_statement
                                    \<and> valkey_encodable (d_text_response data)
                                    \<and> valkey_encodable (d_schema_text data)
                                    \<and> valkey_encodable (d_prompt_text data))
                         then (Inr False, log_error ''Error adding to cache'' (emit (CacheHset key) s))
                         else (Inr True,
                               (emit (CacheExpire key 600) (emit (CacheHset key) s))
                                 \<lparr>keys := (keys s)(key \<mapsto> (mapping, Some 600))\<rparr>))))"

section \<open>services/indexer.py\<close>

text \<open>One metadata dictionary with its embedding, as \<open>store_embeddings\<close> receives it.\<close>

record metadata =
  md_database :: string
  md_schema :: string
  md_table :: string
  md_embedding_text :: string
  md_embedding_hash :: string
  md_embedding :: "real list"

text \<open>The \<open>SELECT id FROM embeddings WHERE ...\<close> of \<open>store_embeddings\<close> finds a row.\<close>

definition embedding_exists :: "embedding_row list \<Rightarrow> metadata \<Rightarrow> bool" where
  "embedding_exists tbl m \<longleftrightarrow>
     list_ex (\<lambda>r. database_name r = md_database m \<and> schema_name r = md_schema m
                 \<and> table_name r = md_table m \<and> embedding_hash r = md_embedding_hash m) tbl"

definition insert_embedding :: "embedding_row list \<Rightarrow> metadata \<Rightarrow> embedding_row list" where
  "insert_embedding tbl m =
     tbl @ [\<lparr>embedding = md_embedding m, database_name = md_database m,
             schema_name = md_schema m, table_name = md_table m,
             embedding_text = md_embedding_text m, embedding_hash = md_embedding_hash m\<rparr>]"

text \<open>The loop of \<open>store_embeddings\<close> over the table it writes to.\<close>

fun store_embeddings :: "embedding_row list \<Rightarrow> metadata list \<Rightarrow> embedding_row list" where
  "store_embeddings tbl [] = tbl"
| "store_embeddings tbl (m # ms) =
     (if embedding_exists tbl m then store_embeddings tbl ms
      else store_embeddings (insert_embedding tbl m) ms)"

text \<open>One result dictionary of \<open>compare_embeddings\<close>.\<close>

record relation_descriptor =
  r_database :: string
  r_schema :: string
  r_table :: string
  r_embedding_text :: string
  r_similarity :: real

text \<open>
  The query of \<open>compare_embeddings\<close>: \<open>1 - (embedding <=> prompt)\<close> per row,
  \<open>ORDER BY similarity DESC LIMIT top_k\<close>. Rows of equal similarity keep the table's order.
\<close>

definition select_similar :: "world \<Rightarrow> embedding_row list \<Rightarrow> real list \<Rightarrow> nat \<Rightarrow> relation_descriptor list" where
  "select_similar w tbl user_embedding top_k =
     take top_k
       (sort_key (\<lambda>r. - r_similarity r)
          (map (\<lambda>row. \<lparr>r_database = database_name row, r_schema = schema_name row,
                       r_table = table_name row, r_embedding_text = embedding_text row,
                       r_similarity = 1 - cosine_distance w (embedding row) user_embedding\<rparr>)
               tbl))"

definition compare_embeddings ::
  "world \<Rightarrow> embedding_row list \<Rightarrow> string \<Rightarrow> nat \<Rightarrow> state
     \<Rightarrow> (exn + relation_descriptor list) \<times> state" where
  "compare_embeddings w conn user_prompt top_k s =
     (case get_embedding w user_prompt s of
        (Inl e, s1) \<Rightarrow> (Inl e, log_error ''Error in compare_embeddings'' s1)
      | (Inr user_embedding, s1) \<Rightarrow>
          (Inr (filter (\<lambda>row. r_similarity row > 0.10)
                  (select_similar w conn user_embedding top_k)),
           emit DbQueryEmbeddings s1))"

section \<open>prompt\_handler.py\<close>

text \<open>The environment variables read at import time.\<close>

record config =
  RDS_DATABASE_NAME :: string
  RDS_SCHEMA :: string
  SECRET_NAME :: string
  MEMDB_ENDPOINT :: string

text \<open>The request: \<open>query\<close>, and \<open>conversation_context\<close> (role, content) when the key is there.\<close>

record request =
  ev_query :: string
  ev_conversation_context :: "(string \<times> string) list option"

definition VECTOR_SCORE_THRESHOLD :: real where
  "VECTOR_SCORE_THRESHOLD = 0.85"

fun join :: "string \<Rightarrow> string list \<Rightarrow> string" where
  "join sep [] = []"
| "join sep [x] = x"
| "join sep (x # y # ys) = x @ sep @ join sep (y # ys)"

definition make_full_prompt :: "(string \<times> string) list \<Rightarrow> string \<Rightarrow> string" where
  "make_full_prompt conversation_context prompt =
     join [CHR 0x0A] (map (\<lambda>(role, content). role @ '': '' @ content) conversation_context)
       @ [CHR 0x0A] @ ''Human: '' @ prompt"

definition follow_up_response :: "py_value \<Rightarrow> py_value" where
  "follow_up_response answer =
     PDict [(''statusCode'', PInt 200),
            (''body'', PDict [(''response'', answer),
                              (''query'', PStr ''Follow-up question answered directly''),
                              (''query_results'', PList []),
                              (''cache_id'', PNone)]),
            (''headers'', PDict [(''Content-Type'', PStr ''application/json'')])]"

text \<open>The loop over the lookup results: the last entry whose stored prompt is the prompt.\<close>

definition exact_match :: "string \<Rightarrow> cache_entry list \<Rightarrow> cache_entry option" where
  "exact_match prompt cache_lookup =
     foldl (\<lambda>cache_entry entry. if e_prompt_text entry = Some prompt then Some entry else cache_entry)
       None cache_lookup"

text \<open>The two tests that follow it: the pair of \<open>cache_hit\<close> and \<open>cache_entry\<close>.\<close>

definition cache_admission :: "string \<Rightarrow> cache_entry list \<Rightarrow> bool \<times> cache_entry option" where
  "cache_admission prompt cache_lookup =
     (let cache_entry = exact_match prompt cache_lookup
      in if cache_entry \<noteq> None then (True, cache_entry)
         else if cache_lookup \<noteq> [] \<and> e_vector_score (hd cache_lookup) \<ge> VECTOR_SCORE_THRESHOLD
         then (True, Some (hd cache_lookup))
         else (False, None))"

fun opt_str :: "string option \<Rightarrow> py_value" where
  "opt_str None = PNone"
| "opt_str (Some s) = PStr s"

text \<open>The cache-hit branch: the stored answer is returned, no SQL is generated or run.\<close>

definition cache_hit_response ::
  "world \<Rightarrow> cache_entry option \<Rightarrow> cache_entry list \<Rightarrow> exn + py_value" where
  "cache_hit_response w cache_entry cache_lookup =
     (case (case cache_entry of
              Some e \<Rightarrow> Inr e
            | None \<Rightarrow> (case cache_lookup of [] \<Rightarrow> Inl IndexError | e # _ \<Rightarrow> Inr e)) of
        Inl e \<Rightarrow> Inl e
      | Inr entry \<Rightarrow>
          (let stored = e_sql_statement entry;
               statement =
                 (case stored of
                    None \<Rightarrow> PNone
                  | Some txt \<Rightarrow>
                      if txt \<noteq> [] \<and> prefix ''['' txt
                      then (case json_loads w txt of Some v \<Rightarrow> v | None \<Rightarrow> PStr txt)
                      else PStr txt)
           in Inr (PDict [(''statusCode'', PInt 200),
                          (''body'', PDict [(''response'', opt_str (e_text_response entry)),
                                            (''query'', statement),
                                            (''query_results'', opt_str (e_query_results entry)),
                                            (''column_names'', opt_str (e_column_names entry)),
                                            (''cache_id'', PStr (e_id entry))]),
                          (''headers'', PDict [(''Content-Type'', PStr ''application/json'')])])))"

text \<open>The cache-miss branch: retrieval, generation, execution, description, cache write.\<close>

definition cache_miss ::
  "world \<Rightarrow> string \<Rightarrow> real list \<Rightarrow> state \<Rightarrow> (exn + py_value) \<times> state" where
  "cache_miss w prompt embeddings_for_prompt s =
     (case compare_embeddings w (embeddings_table w) prompt 5 s of
        (Inl e, s1) \<Rightarrow> (Inl e, s1)
      | (Inr schema_results, s1) \<Rightarrow>
          (let schema_context_text =
                 join [CHR 0x0A, CHR 0x0A] (map r_embedding_text schema_results)
           in case get_sql_from_bedrock w prompt schema_context_text s1 of
                (Inl e, s2) \<Rightarrow> (Inl e, s2)
              | (Inr sql, s2) \<Rightarrow>
                  if \<not> py_truthy sql
                  then (Inr (PDict [(''statusCode'', PInt 500),
                          (''body'', PDict [(''response'',
                             PStr ''Unable to generate SQL for the provided prompt, please try again.'')]),
                          (''headers'', PDict [(''Content-Type'', PStr ''application/json'')])]), s2)
                  else
                    (case execute_sql w sql s2 of
                       (Inl e, s3) \<Rightarrow> (Inl e, s3)
                     | (Inr (sql_response, names), s3) \<Rightarrow>
                         (case describe_results_from_query w sql (sql_response, names)
                                 schema_context_text s3 of
                            (Inl e, s4) \<Rightarrow> (Inl e, s4)
                          | (Inr response, s4) \<Rightarrow>
                              (case py_getitem response ''body'' of
                                 Inl e \<Rightarrow> (Inl e, s4)
                               | Inr body \<Rightarrow>
                                   (case py_getitem body ''response'' of
                                      Inl e \<Rightarrow> (Inl e, s4)
                                    | Inr answer \<Rightarrow>
                                        (let cache_data =
                                           \<lparr>d_sql_statement = sql, d_text_response = answer,
                                            d_query_results = PStr (py_str w sql_response),
                                            d_column_names = Some names,
                                            d_schema_text = PStr schema_context_text,
                                            d_prompt_text = PStr prompt\<rparr>
                                         in case add w prompt embeddings_for_prompt cache_data
                                                   ''cache'' s4 of
                                              (Inl e, s5) \<Rightarrow> (Inl e, s5)
                                            | (Inr stored, s5) \<Rightarrow> (Inr response, s5))))))))"

text \<open>The body of the \<open>try\<close> block.\<close>

definition resolve ::
  "config \<Rightarrow> world \<Rightarrow> string \<Rightarrow> state \<Rightarrow> (exn + py_value) \<times> state" where
  "resolve cfg w prompt s =
     (case get_embedding w prompt s of
        (Inl e, s1) \<Rightarrow> (Inl e, s1)
      | (Inr embeddings_for_prompt, s1) \<Rightarrow>
          (let s2 = connect_to_cluster w (MEMDB_ENDPOINT cfg) s1
           in case search w embeddings_for_prompt 20 s2 of
                (Inl e, s3) \<Rightarrow> (Inl e, s3)
              | (Inr cache_lookup, s3) \<Rightarrow>
                  (case cache_admission prompt cache_lookup of
                     (False, cache_entry) \<Rightarrow> cache_miss w prompt embeddings_for_prompt s3
                   | (True, cache_entry) \<Rightarrow>
                       (cache_hit_response w cache_entry cache_lookup, s3))))"

text \<open>
  From the identifier test to the \<open>finally\<close> block. The connection object is always true,
  so the test \<open>if not t2sql_conn\<close> never raises.
\<close>

definition query_pipeline ::
  "config \<Rightarrow> world \<Rightarrow> string \<Rightarrow> state \<Rightarrow> (exn + py_value) \<times> state" where
  "query_pipeline cfg w prompt s =
     (if \<not> (is_valid_postgres_identifier (RDS_DATABASE_NAME cfg)
              \<or> is_valid_postgres_identifier (RDS_SCHEMA cfg))
      then (Inl (Exception ([CHR 0x27] @ RDS_SCHEMA cfg @ [CHR 0x27] @ '' or '' @ [CHR 0x27]
                   @ RDS_DATABASE_NAME cfg @ [CHR 0x27] @ '' is not a valid PostgreSQL name.'')), s)
      else case set_secret w (SECRET_NAME cfg) s of
             (Inl e, s1) \<Rightarrow> (Inl e, s1)
           | (Inr u, s1) \<Rightarrow>
               (case connect_to_db w s1 of
                  (Inl e, s2) \<Rightarrow> (Inl e, s2)
                | (Inr u, s2) \<Rightarrow>
                    (case resolve cfg w prompt s2 of (r, s3) \<Rightarrow> (r, emit DbClose s3))))"

definition lambda_handler ::
  "config \<Rightarrow> world \<Rightarrow> request \<Rightarrow> state \<Rightarrow> (exn + py_value) \<times> state" where
  "lambda_handler cfg w event s =
     (let prompt = ev_query event;
          conversation_context =
            (case ev_conversation_context event of None \<Rightarrow> [] | Some c \<Rightarrow> c)
      in if conversation_context \<noteq> [] then
           (case check_if_follow_up_question w (make_full_prompt conversation_context prompt) s of
              (Inl e, s1) \<Rightarrow> (Inl e, s1)
            | (Inr follow_up_check, s1) \<Rightarrow>
                (case py_getitem follow_up_check ''is_follow_up'' of
                   Inl e \<Rightarrow> (Inl e, s1)
                 | Inr flag \<Rightarrow>
                     if py_truthy flag then
                       (case py_getitem follow_up_check ''answer'' of
                          Inl e \<Rightarrow> (Inl e, s1)
                        | Inr answer \<Rightarrow> (Inr (follow_up_response answer), s1))
                     else query_pipeline cfg w prompt s1))
         else query_pipeline cfg w prompt s)"

section \<open>Keys, sample configuration and sample worlds\<close>

text \<open>The four columns of the uniqueness constraint, on a metadata dictionary and on a row.\<close>

definition md_key :: "metadata \<Rightarrow> string \<times> string \<times> string \<times> string" where
  "md_key m = (md_database m, md_schema m, md_table m, md_embedding_hash m)"

definition row_key :: "embedding_row \<Rightarrow> string \<times> string \<times> string \<times> string" where
  "row_key r = (database_name r, schema_name r, table_name r, embedding_hash r)"

text \<open>
  A world in which every collaborator answers: the model returns a tagged statement, the
  driver runs a statement given as text and refuses any other object with TypeError, the
  schema index and the cache are empty.
\<close>

definition demo_world :: world where
  "demo_world =
     \<lparr>invoke_model = (\<lambda>p. case p of
          FollowUpPrompt c \<Rightarrow> Inr ''is_follow_up: true, answer: There are 5 properties.''
        | SqlPrompt q sch \<Rightarrow>
            Inr ''<sql>SELECT count(*) FROM us_housing_properties</sql><params>[]</params>''
        | TextPrompt q sch r \<Rightarrow> Inr ''There are 5 properties.''),
      parse_follow_up = (\<lambda>t. Some (PDict [(''is_follow_up'', PBool True),
                                             (''answer'', PStr ''There are 5 properties.'')])),
      literal_eval = (\<lambda>t. if t = ''[]'' then Some (PList []) else None),
      json_loads = (\<lambda>t. None),
      json_text = (\<lambda>v. ''[]''),
      py_str = (\<lambda>v. ''[(5,)]''),
      sha256_hexdigest = (\<lambda>k. ''0f''),
      float32 = (\<lambda>x. 0),
      titan_embedding = (\<lambda>t. Inr [0.1, 0.2, 0.3]),
      get_secret_value = (\<lambda>i. None),
      psycopg_connect = None,
      cursor_execute = (\<lambda>sql params. case sql of
          PStr q \<Rightarrow> Inr (Some ([PTuple [PInt 5]], [''count'']))
        | _ \<Rightarrow> Inl TypeError),
      embeddings_table = [],
      cosine_distance = (\<lambda>a b. 0.5),
      cluster_reachable = True,
      ft_search = (\<lambda>ks v k. [])\<rparr>"

definition demo_config :: config where
  "demo_config = \<lparr>RDS_DATABASE_NAME = ''postgres'', RDS_SCHEMA = ''public'',
                   SECRET_NAME = ''secret'', MEMDB_ENDPOINT = ''memdb''\<rparr>"

text \<open>The state of a fresh process: no cache client yet, nothing logged, nothing called.\<close>

definition cold_start :: state where
  "cold_start = \<lparr>valkey_client = False, index_exists = False, keys = Map.empty,
                  error_log = [], trace = []\<rparr>"

definition demo_request :: request where
  "demo_request =
     \<lparr>ev_query = ''How many properties are there?'', ev_conversation_context = None\<rparr>"

definition demo_entry :: "string \<Rightarrow> string \<Rightarrow> real \<Rightarrow> cache_entry" where
  "demo_entry ident stored score =
     \<lparr>e_id = ident, e_sql_statement = Some ''SELECT 1'', e_text_response = Some ''One.'',
      e_query_results = Some ''[(1,)]'', e_prompt_text = Some stored, e_schema_text = Some [],
      e_column_names = Some ''[]'', e_vector_score = score\<rparr>"

definition demo_md :: "string \<Rightarrow> string \<Rightarrow> real list \<Rightarrow> metadata" where
  "demo_md tbl_name digest vec =
     \<lparr>md_database = ''postgres'', md_schema = ''public'', md_table = tbl_name,
      md_embedding_text = ''Table: '' @ tbl_name, md_embedding_hash = digest,
      md_embedding = vec\<rparr>"

definition demo_row :: "string \<Rightarrow> string \<Rightarrow> real list \<Rightarrow> embedding_row" where
  "demo_row tbl_name digest vec =
     \<lparr>embedding = vec, database_name = ''postgres'', schema_name = ''public'',
      table_name = tbl_name, embedding_text = ''Table: '' @ tbl_name,
      embedding_hash = digest\<rparr>"

text \<open>A request that carries two earlier turns of the conversation.\<close>

definition follow_up_request :: request where
  "follow_up_request =
     \<lparr>ev_query = ''How many properties did you find?'',
      ev_conversation_context =
        Some [(''Human'', ''What are the top properties in San Francisco?''),
              (''Assistant'', ''I found 5 top properties in San Francisco.'')]\<rparr>"

text \<open>The generation model answers without a tagged statement.\<close>

definition no_sql_world :: world where
  "no_sql_world =
     demo_world\<lparr>invoke_model := (\<lambda>p. case p of
          SqlPrompt q sch \<Rightarrow> Inr ''I cannot write a query for that request.''
        | _ \<Rightarrow> invoke_model demo_world p)\<rparr>"

text \<open>The cache cluster does not answer.\<close>

definition unreachable_world :: world where
  "unreachable_world = demo_world\<lparr>cluster_reachable := False\<rparr>"

text \<open>A valid database name with a reserved word as schema name, and two invalid names.\<close>

definition reserved_schema_config :: config where
  "reserved_schema_config = demo_config\<lparr>RDS_SCHEMA := ''select''\<rparr>"

definition invalid_config :: config where
  "invalid_config = demo_config\<lparr>RDS_DATABASE_NAME := ''pg_internal'', RDS_SCHEMA := ''select''\<rparr>"

text \<open>Records for \<open>add\<close> with an empty answer: one plain, one whose parameters hold bytes.\<close>

definition empty_answer_data :: cache_data where
  "empty_answer_data =
     \<lparr>d_sql_statement = PTuple [PStr ''SELECT 1'', PList []], d_text_response = PStr [],
      d_query_results = PStr ''[(1,)]'', d_column_names = Some (PList [PStr ''c'']),
      d_schema_text = PStr ''Table: t'', d_prompt_text = PStr ''one''\<rparr>"

definition bytes_params_data :: cache_data where
  "bytes_params_data =
     empty_answer_data\<lparr>d_sql_statement :=
       PTuple [PStr ''SELECT name FROM t WHERE tag = %s'', PList [PBytes ''x'']]\<rparr>"

text \<open>The effects other than a call of the follow-up classification.\<close>

fun pipeline_effect :: "effect \<Rightarrow> bool" where
  "pipeline_effect (BedrockInvoke (FollowUpPrompt p)) = False"
| "pipeline_effect e = True"

text \<open>The second state continues the first one's trace with effects of a given kind only.\<close>

definition extends_trace :: "(effect \<Rightarrow> bool) \<Rightarrow> state \<Rightarrow> state \<Rightarrow> bool" where
  "extends_trace ok s s' \<longleftrightarrow> (\<exists>es. trace s' = trace s @ es \<and> list_all ok es)"

section \<open>Cache admission\<close>

lemma exact_match_foldl:
  "foldl (\<lambda>cache_entry entry. if e_prompt_text entry = Some prompt then Some entry else cache_entry)
       acc xs
     = (case filter (\<lambda>e. e_prompt_text e = Some prompt) xs of
          [] \<Rightarrow> acc
        | y # ys \<Rightarrow> Some (last (y # ys)))"
  by (induction xs arbitrary: acc) (auto split: list.splits)

lemma exact_match_filter:
  "exact_match prompt xs
     = (case filter (\<lambda>e. e_prompt_text e = Some prompt) xs of
          [] \<Rightarrow> None
        | y # ys \<Rightarrow> Some (last (y # ys)))"
  unfolding exact_match_def by (rule exact_match_foldl)

lemma exact_match_None:
  "(exact_match prompt xs = None) = (\<forall>e \<in> set xs. e_prompt_text e \<noteq> Some prompt)"
proof (cases "filter (\<lambda>e. e_prompt_text e = Some prompt) xs")
  case Nil
  then show ?thesis by (simp add: exact_match_filter filter_empty_conv)
next
  case (Cons y ys)
  then have "y \<in> set (filter (\<lambda>e. e_prompt_text e = Some prompt) xs)" by simp
  then have "y \<in> set xs" "e_prompt_text y = Some prompt" by simp_all
  with Cons show ?thesis by (auto simp: exact_match_filter)
qed

lemma exact_match_last:
  assumes "\<exists>e \<in> set xs. e_prompt_text e = Some prompt"
  shows "exact_match prompt xs = Some (last (filter (\<lambda>e. e_prompt_text e = Some prompt) xs))"
  using assms by (auto simp: exact_match_filter filter_empty_conv split: list.splits)

text \<open>
  C4. Admission has two tiers, in this order. If some returned entry stores the incoming
  prompt verbatim, the hit is such an entry (the last one in the list), whatever its score.
  Otherwise the first entry of the list is the hit exactly when its score is at least 0.85.
  Otherwise the lookup is a miss; no entry behind the first one is admitted by its score.
\<close>

theorem cache_admission_two_tier:
  "((\<exists>e \<in> set cache_lookup. e_prompt_text e = Some prompt) \<longrightarrow>
      cache_admission prompt cache_lookup
        = (True, Some (last (filter (\<lambda>e. e_prompt_text e = Some prompt) cache_lookup))))
   \<and> ((\<forall>e \<in> set cache_lookup. e_prompt_text e \<noteq> Some prompt) \<and> cache_lookup \<noteq> []
        \<and> e_vector_score (hd cache_lookup) \<ge> 0.85 \<longrightarrow>
      cache_admission prompt cache_lookup = (True, Some (hd cache_lookup)))
   \<and> ((\<forall>e \<in> set cache_lookup. e_prompt_text e \<noteq> Some prompt)
        \<and> (cache_lookup = [] \<or> e_vector_score (hd cache_lookup) < 0.85) \<longrightarrow>
      cache_admission prompt cache_lookup = (False, None))"
proof (intro conjI impI)
  assume "\<exists>e \<in> set cache_lookup. e_prompt_text e = Some prompt"
  then show "cache_admission prompt cache_lookup
        = (True, Some (last (filter (\<lambda>e. e_prompt_text e = Some prompt) cache_lookup)))"
    by (simp add: cache_admission_def exact_match_last)
next
  assume a: "(\<forall>e \<in> set cache_lookup. e_prompt_text e \<noteq> Some prompt) \<and> cache_lookup \<noteq> []
        \<and> e_vector_score (hd cache_lookup) \<ge> 0.85"
  then have "exact_match prompt cache_lookup = None" by (simp add: exact_match_None)
  with a show "cache_admission prompt cache_lookup = (True, Some (hd cache_lookup))"
    by (simp add: cache_admission_def VECTOR_SCORE_THRESHOLD_def)
next
  assume a: "(\<forall>e \<in> set cache_lookup. e_prompt_text e \<noteq> Some prompt)
        \<and> (cache_lookup = [] \<or> e_vector_score (hd cache_lookup) < 0.85)"
  then have "exact_match prompt cache_lookup = None" by (simp add: exact_match_None)
  with a show "cache_admission prompt cache_lookup = (False, None)"
    by (auto simp: cache_admission_def VECTOR_SCORE_THRESHOLD_def)
qed

theorem cache_admission_two_tier_witness:
  "(\<exists>e \<in> set [demo_entry ''a'' ''other'' 0.9, demo_entry ''b'' ''q'' 0.3].
       e_prompt_text e = Some ''q'')
   \<and> cache_admission ''q'' [demo_entry ''a'' ''other'' 0.9, demo_entry ''b'' ''q'' 0.3]
       = (True, Some (demo_entry ''b'' ''q'' 0.3))
   \<and> cache_admission ''q'' [demo_entry ''a'' ''other'' 0.85, demo_entry ''b'' ''x'' 0.99]
       = (True, Some (demo_entry ''a'' ''other'' 0.85))
   \<and> cache_admission ''q'' [demo_entry ''a'' ''other'' 0.84, demo_entry ''b'' ''x'' 0.99]
       = (False, None)"
  using cache_admission_two_tier
          [of "[demo_entry ''a'' ''other'' 0.9, demo_entry ''b'' ''q'' 0.3]" "''q''"]
        cache_admission_two_tier
          [of "[demo_entry ''a'' ''other'' 0.85, demo_entry ''b'' ''x'' 0.99]" "''q''"]
        cache_admission_two_tier
          [of "[demo_entry ''a'' ''other'' 0.84, demo_entry ''b'' ''x'' 0.99]" "''q''"]
  by (simp add: demo_entry_def)

section \<open>Schema index\<close>

lemma embedding_exists_key: "embedding_exists tbl m \<longleftrightarrow> md_key m \<in> row_key ` set tbl"
  unfolding embedding_exists_def list_ex_iff md_key_def row_key_def image_iff
  by (intro iffI; elim bexE; intro bexI; simp)

lemma row_key_insert: "map row_key (insert_embedding tbl m) = map row_key tbl @ [md_key m]"
  by (simp add: insert_embedding_def row_key_def md_key_def)

lemma store_embeddings_keys:
  "row_key ` set (store_embeddings tbl ms) = row_key ` set tbl \<union> md_key ` set ms"
proof (induction ms arbitrary: tbl)
  case Nil
  show ?case by simp
next
  case (Cons m ms)
  show ?case
  proof (cases "embedding_exists tbl m")
    case True
    then show ?thesis using Cons.IH [of tbl] by (auto simp: embedding_exists_key)
  next
    case False
    have "row_key ` set (insert_embedding tbl m) = row_key ` set tbl \<union> {md_key m}"
      using row_key_insert [of tbl m] by (metis list.set_map set_append list.simps(15) empty_set)
    with False show ?thesis using Cons.IH [of "insert_embedding tbl m"] by auto
  qed
qed

lemma store_embeddings_distinct:
  "distinct (map row_key tbl) \<Longrightarrow> distinct (map row_key (store_embeddings tbl ms))"
proof (induction ms arbitrary: tbl)
  case Nil
  then show ?case by simp
next
  case (Cons m ms)
  show ?case
  proof (cases "embedding_exists tbl m")
    case True
    with Cons show ?thesis by simp
  next
    case False
    then have "md_key m \<notin> set (map row_key tbl)" by (simp add: embedding_exists_key)
    with Cons.prems have "distinct (map row_key (insert_embedding tbl m))"
      by (simp add: row_key_insert)
    with False show ?thesis using Cons.IH by simp
  qed
qed

lemma store_embeddings_noop:
  "md_key ` set ms \<subseteq> row_key ` set tbl \<Longrightarrow> store_embeddings tbl ms = tbl"
  by (induction ms) (auto simp: embedding_exists_key)

lemma key_count_one:
  assumes "distinct (map row_key tbl)" "k \<in> row_key ` set tbl"
  shows "length (filter (\<lambda>r. row_key r = k) tbl) = 1"
proof -
  have "length (filter (\<lambda>r. row_key r = k) tbl) = length (filter (\<lambda>x. x = k) (map row_key tbl))"
    by (induction tbl) auto
  also have "\<dots> = 1" using assms
    by (induction tbl) (auto simp: filter_empty_conv image_iff intro: filter_False)
  finally show ?thesis .
qed

text \<open>
  C8. The upsert is idempotent. A descriptor whose (database, schema, table, hash) is
  already stored is not inserted. Running \<open>store_embeddings\<close> a second time with the same
  table metadata (the embeddings may differ) leaves the table as the first run left it,
  and if the table had at most one row per tuple before, it then holds exactly one row
  for every descriptor's tuple.
\<close>

theorem store_embeddings_idempotent:
  "(embedding_exists tbl m \<longrightarrow> store_embeddings tbl [m] = tbl)
   \<and> (map md_key ms' = map md_key ms \<longrightarrow>
        store_embeddings (store_embeddings tbl ms) ms' = store_embeddings tbl ms
        \<and> (distinct (map row_key tbl) \<longrightarrow>
             (\<forall>d \<in> set ms. length (filter (\<lambda>r. row_key r = md_key d)
                                 (store_embeddings (store_embeddings tbl ms) ms')) = 1)))"
proof (intro conjI impI)
  assume "embedding_exists tbl m"
  then show "store_embeddings tbl [m] = tbl" by simp
next
  assume same: "map md_key ms' = map md_key ms"
  then have "md_key ` set ms' = md_key ` set ms" by (metis list.set_map)
  then have "md_key ` set ms' \<subseteq> row_key ` set (store_embeddings tbl ms)"
    by (simp add: store_embeddings_keys)
  then show twice: "store_embeddings (store_embeddings tbl ms) ms' = store_embeddings tbl ms"
    by (rule store_embeddings_noop)
  assume "distinct (map row_key tbl)"
  then have d: "distinct (map row_key (store_embeddings tbl ms))"
    by (rule store_embeddings_distinct)
  show "\<forall>d \<in> set ms. length (filter (\<lambda>r. row_key r = md_key d)
                                 (store_embeddings (store_embeddings tbl ms) ms')) = 1"
  proof
    fix x assume "x \<in> set ms"
    then have "md_key x \<in> row_key ` set (store_embeddings tbl ms)"
      by (simp add: store_embeddings_keys)
    with d show "length (filter (\<lambda>r. row_key r = md_key x)
                                 (store_embeddings (store_embeddings tbl ms) ms')) = 1"
      unfolding twice by (rule key_count_one)
  qed
qed

theorem store_embeddings_idempotent_witness:
  "embedding_exists [demo_row ''t1'' ''h1'' [1]] (demo_md ''t1'' ''h1'' [2])
   \<and> store_embeddings [demo_row ''t1'' ''h1'' [1]] [demo_md ''t1'' ''h1'' [2]]
       = [demo_row ''t1'' ''h1'' [1]]
   \<and> map md_key [demo_md ''t1'' ''h1'' [3], demo_md ''t2'' ''h2'' [4]]
       = map md_key [demo_md ''t1'' ''h1'' [2], demo_md ''t2'' ''h2'' [5]]
   \<and> distinct (map row_key [demo_row ''t1'' ''h1'' [1]])
   \<and> store_embeddings
         (store_embeddings [demo_row ''t1'' ''h1'' [1]]
            [demo_md ''t1'' ''h1'' [2], demo_md ''t2'' ''h2'' [5]])
         [demo_md ''t1'' ''h1'' [3], demo_md ''t2'' ''h2'' [4]]
       = store_embeddings [demo_row ''t1'' ''h1'' [1]]
           [demo_md ''t1'' ''h1'' [2], demo_md ''t2'' ''h2'' [5]]
   \<and> length (filter (\<lambda>r. row_key r = md_key (demo_md ''t2'' ''h2'' [5]))
         (store_embeddings
            (store_embeddings [demo_row ''t1'' ''h1'' [1]]
               [demo_md ''t1'' ''h1'' [2], demo_md ''t2'' ''h2'' [5]])
            [demo_md ''t1'' ''h1'' [3], demo_md ''t2'' ''h2'' [4]])) = 1"
proof -
  have h1: "embedding_exists [demo_row ''t1'' ''h1'' [1]] (demo_md ''t1'' ''h1'' [2])"
    by (simp add: embedding_exists_def demo_row_def demo_md_def)
  have h2: "map md_key [demo_md ''t1'' ''h1'' [3], demo_md ''t2'' ''h2'' [4]]
       = map md_key [demo_md ''t1'' ''h1'' [2], demo_md ''t2'' ''h2'' [5]]"
    by (simp add: md_key_def demo_md_def)
  have h3: "distinct (map row_key [demo_row ''t1'' ''h1'' [1]])" by simp
  show ?thesis
    using h1 h2 h3
      store_embeddings_idempotent
        [of "[demo_row ''t1'' ''h1'' [1]]" "demo_md ''t1'' ''h1'' [2]"
            "[demo_md ''t1'' ''h1'' [3], demo_md ''t2'' ''h2'' [4]]"
            "[demo_md ''t1'' ''h1'' [2], demo_md ''t2'' ''h2'' [5]]"]
    by (simp add: embedding_exists_def insert_embedding_def demo_row_def demo_md_def
          row_key_def md_key_def)
qed

lemma select_similar_sorted:
  "sorted_wrt (\<lambda>a b. r_similarity a \<ge> r_similarity b) (select_similar w tbl v k)"
proof -
  let ?xs = "map (\<lambda>row. \<lparr>r_database = database_name row, r_schema = schema_name row,
                       r_table = table_name row, r_embedding_text = embedding_text row,
                       r_similarity = 1 - cosine_distance w (embedding row) v\<rparr>) tbl"
  have "sorted (map (\<lambda>r. - r_similarity r) (sort_key (\<lambda>r. - r_similarity r) ?xs))"
    by (rule sorted_sort_key)
  then have "sorted_wrt (\<lambda>a b. r_similarity a \<ge> r_similarity b) (sort_key (\<lambda>r. - r_similarity r) ?xs)"
    by (simp add: sorted_wrt_map)
  then show ?thesis unfolding select_similar_def by (rule sorted_wrt_take)
qed

lemma select_similar_length: "length (select_similar w tbl v k) \<le> k"
  by (simp add: select_similar_def)

text \<open>
  C7. When the prompt's embedding is obtained, \<open>compare_embeddings\<close> returns a list in
  which every descriptor has a similarity above 0.10, which holds at most \<open>top_k\<close>
  descriptors (also when fewer qualify), and which is ordered by similarity, highest first.
\<close>

theorem compare_embeddings_relevance_floor:
  assumes "titan_embedding w user_prompt = Inr user_embedding"
  shows "\<exists>results. fst (compare_embeddings w conn user_prompt top_k s) = Inr results
           \<and> (\<forall>r \<in> set results. r_similarity r > 0.10)
           \<and> length results \<le> top_k
           \<and> sorted_wrt (\<lambda>a b. r_similarity a \<ge> r_similarity b) results"
proof -
  let ?res = "filter (\<lambda>row. r_similarity row > 0.10) (select_similar w conn user_embedding top_k)"
  have "fst (compare_embeddings w conn user_prompt top_k s) = Inr ?res"
    using assms by (simp add: compare_embeddings_def get_embedding_def)
  moreover have "\<forall>r \<in> set ?res. r_similarity r > 0.10" by simp
  moreover have "length ?res \<le> top_k"
    using length_filter_le [of "\<lambda>row. r_similarity row > 0.10" "select_similar w conn user_embedding top_k"]
      select_similar_length [of w conn user_embedding top_k] by linarith
  moreover have "sorted_wrt (\<lambda>a b. r_similarity a \<ge> r_similarity b) ?res"
    using select_similar_sorted by (rule sorted_wrt_filter)
  ultimately show ?thesis by blast
qed

theorem compare_embeddings_relevance_floor_witness:
  "titan_embedding demo_world ''How many properties are there?'' = Inr [0.1, 0.2, 0.3]
   \<and> (\<exists>results.
         fst (compare_embeddings demo_world
                [demo_row ''t1'' ''h1'' [1], demo_row ''t2'' ''h2'' [2]]
                ''How many properties are there?'' 1 cold_start) = Inr results
         \<and> (\<forall>r \<in> set results. r_similarity r > 0.10)
         \<and> length results \<le> 1
         \<and> sorted_wrt (\<lambda>a b. r_similarity a \<ge> r_similarity b) results)"
proof -
  have h: "titan_embedding demo_world ''How many properties are there?'' = Inr [0.1, 0.2, 0.3]"
    by (simp add: demo_world_def)
  show ?thesis
    using h compare_embeddings_relevance_floor [OF h,
        of "[demo_row ''t1'' ''h1'' [1], demo_row ''t2'' ''h2'' [2]]" 1 cold_start]
    by simp
qed

section \<open>Evaluating the handler\<close>

lemma valid_postgres: "is_valid_postgres_identifier ''postgres''" by code_simp
lemma valid_public: "is_valid_postgres_identifier ''public''" by code_simp
lemma invalid_select: "\<not> is_valid_postgres_identifier ''select''" by code_simp

lemmas handler_defs = lambda_handler_def query_pipeline_def resolve_def cache_miss_def
  cache_hit_response_def cache_admission_def exact_match_def set_secret_def connect_to_db_def
  get_embedding_def connect_to_cluster_def setup_index_def search_def compare_embeddings_def
  select_similar_def get_sql_from_bedrock_def execute_sql_def describe_results_from_query_def
  call_bedrock_def check_if_follow_up_question_def add_def emit_def log_error_def
  no_sql_response_def json_dumps_def hash_key_def Let_def

lemmas demo_defs = demo_world_def demo_config_def cold_start_def demo_request_def
  follow_up_request_def no_sql_world_def unreachable_world_def reserved_schema_config_def
  invalid_config_def empty_answer_data_def bytes_params_data_def

lemma demo_sql:
  "findall_tag ''<sql>'' ''</sql>''
     ''<sql>SELECT count(*) FROM us_housing_properties</sql><params>[]</params>''
     = [''SELECT count(*) FROM us_housing_properties'']"
  by code_simp

lemma demo_params:
  "findall_tag ''<params>'' ''</params>''
     ''<sql>SELECT count(*) FROM us_housing_properties</sql><params>[]</params>'' = [''[]'']"
  by code_simp

lemma refusal_sql:
  "findall_tag ''<sql>'' ''</sql>'' ''I cannot write a query for that request.'' = []"
  by code_simp

lemma refusal_params:
  "findall_tag ''<params>'' ''</params>'' ''I cannot write a query for that request.'' = []"
  by code_simp

section \<open>Follow-up short circuit\<close>

lemma check_follow_up_state:
  assumes "check_if_follow_up_question w fp s = (Inr r, s1)"
    and "py_getitem r ''is_follow_up'' = Inr flag" "py_truthy flag"
  shows "s1 = emit (BedrockInvoke (FollowUpPrompt fp)) s"
  using assms
  by (auto simp: check_if_follow_up_question_def call_bedrock_def
           split: sum.splits option.splits)

text \<open>
  C5. When the conversation context is not empty and the classification returns a result
  whose \<open>is_follow_up\<close> is true, the handler returns at once: the response carries the
  classifier's answer, its \<open>query\<close> is the text "Follow-up question answered directly" and
  its \<open>query_results\<close> is the empty list. The only external call made is the
  classification itself: no secret is read, no database connection is opened, no embedding
  is requested, the cache is neither connected to nor searched, and nothing is logged.
\<close>

theorem follow_up_short_circuit:
  assumes ctx: "ev_conversation_context event = Some ctx" "ctx \<noteq> []"
    and chk: "check_if_follow_up_question w (make_full_prompt ctx (ev_query event)) s
                = (Inr r, s1)"
    and flag: "py_getitem r ''is_follow_up'' = Inr flag" "py_truthy flag"
    and ans: "py_getitem r ''answer'' = Inr answer"
  shows "lambda_handler cfg w event s =
           (Inr (PDict [(''statusCode'', PInt 200),
                        (''body'', PDict [(''response'', answer),
                                          (''query'', PStr ''Follow-up question answered directly''),
                                          (''query_results'', PList []),
                                          (''cache_id'', PNone)]),
                        (''headers'', PDict [(''Content-Type'', PStr ''application/json'')])]),
            s1)
         \<and> trace s1 = trace s @ [BedrockInvoke (FollowUpPrompt (make_full_prompt ctx (ev_query event)))]
         \<and> keys s1 = keys s \<and> valkey_client s1 = valkey_client s
         \<and> error_log s1 = error_log s"
proof -
  have s1: "s1 = emit (BedrockInvoke (FollowUpPrompt (make_full_prompt ctx (ev_query event)))) s"
    using chk flag by (rule check_follow_up_state)
  have "lambda_handler cfg w event s = (Inr (follow_up_response answer), s1)"
    using ctx chk flag ans by (simp add: lambda_handler_def)
  then show ?thesis by (simp add: follow_up_response_def s1 emit_def)
qed

theorem follow_up_short_circuit_witness:
  "lambda_handler demo_config demo_world follow_up_request cold_start =
     (Inr (PDict [(''statusCode'', PInt 200),
                  (''body'', PDict [(''response'', PStr ''There are 5 properties.''),
                                    (''query'', PStr ''Follow-up question answered directly''),
                                    (''query_results'', PList []),
                                    (''cache_id'', PNone)]),
                  (''headers'', PDict [(''Content-Type'', PStr ''application/json'')])]),
      emit (BedrockInvoke (FollowUpPrompt
              (make_full_prompt
                 [(''Human'', ''What are the top properties in San Francisco?''),
                  (''Assistant'', ''I found 5 top properties in San Francisco.'')]
                 ''How many properties did you find?''))) cold_start)"
proof -
  let ?ctx = "[(''Human'', ''What are the top properties in San Francisco?''),
               (''Assistant'', ''I found 5 top properties in San Francisco.'')]"
  let ?r = "PDict [(''is_follow_up'', PBool True), (''answer'', PStr ''There are 5 properties.'')]"
  let ?s1 = "emit (BedrockInvoke (FollowUpPrompt
              (make_full_prompt ?ctx ''How many properties did you find?''))) cold_start"
  have c1: "ev_conversation_context follow_up_request = Some ?ctx"
    by (simp add: follow_up_request_def)
  have c2: "?ctx \<noteq> []" by simp
  have q: "ev_query follow_up_request = ''How many properties did you find?''"
    by (simp add: follow_up_request_def)
  have chk: "check_if_follow_up_question demo_world
               (make_full_prompt ?ctx (ev_query follow_up_request)) cold_start = (Inr ?r, ?s1)"
    by (simp add: q check_if_follow_up_question_def call_bedrock_def demo_world_def)
  have f1: "py_getitem ?r ''is_follow_up'' = Inr (PBool True)" by simp
  have f2: "py_truthy (PBool True)" by simp
  have a: "py_getitem ?r ''answer'' = Inr (PStr ''There are 5 properties.'')" by simp
  from follow_up_short_circuit [OF c1 c2 chk f1 f2 a, of demo_config]
  show ?thesis by simp
qed

section \<open>Cache write with an empty answer\<close>




section \<open>Where the handler departs from the specification\<close>

text \<open>
  C1. The generation model answers without an \<open><sql>\<close> block. \<open>get_sql_from_bedrock\<close>
  returns its error dictionary, which is true as a condition, so the handler's test
  \<open>if not sql\<close> does not fire: the dictionary is handed to the cursor as the statement,
  the driver refuses it and the handler ends with an exception, not with the 500 response.
\<close>

theorem no_sql_block_raises:
  "findall_tag ''<sql>'' ''</sql>'' ''I cannot write a query for that request.'' = []
   \<and> fst (get_sql_from_bedrock no_sql_world ''How many properties are there?'' [] cold_start)
       = Inr no_sql_response
   \<and> py_truthy no_sql_response
   \<and> fst (lambda_handler demo_config no_sql_world demo_request cold_start) = Inl TypeError
   \<and> trace (snd (lambda_handler demo_config no_sql_world demo_request cold_start)) =
       [SecretGet ''secret'', DbConnect, EmbeddingInvoke ''How many properties are there?'',
        CacheConnect ''memdb'', CacheSearch, EmbeddingInvoke ''How many properties are there?'',
        DbQueryEmbeddings, BedrockInvoke (SqlPrompt ''How many properties are there?'' []),
        DbExecute no_sql_response (PList []), DbClose]"
  by (simp add: handler_defs demo_defs valid_postgres refusal_sql refusal_params
           del: findall_tag.simps)

theorem no_sql_block_raises_witness:
  "fst (lambda_handler demo_config no_sql_world demo_request cold_start) \<noteq> Inr no_sql_response"
  using no_sql_block_raises by simp

text \<open>
  C2. The database name is valid and the schema name is the reserved word \<open>select\<close>.
  The handler's test is \<open>not (valid(database) or valid(schema))\<close>, so the request does
  not fail: the secret is read, the database connection is opened and the request is
  answered.
\<close>

theorem reserved_schema_accepted:
  "is_valid_postgres_identifier (RDS_DATABASE_NAME reserved_schema_config)
   \<and> \<not> is_valid_postgres_identifier (RDS_SCHEMA reserved_schema_config)
   \<and> fst (lambda_handler reserved_schema_config demo_world demo_request cold_start) =
       Inr (PDict [(''statusCode'', PInt 200),
         (''body'', PDict [(''response'', PStr ''There are 5 properties.''),
            (''query'', PTuple [PStr ''SELECT count(*) FROM us_housing_properties'', PList []]),
            (''query_results'', PList [PTuple [PInt 5]]),
            (''column_names'', PList [PStr ''count'']),
            (''cache_id'', PNone)]),
         (''headers'', PDict [(''Content-Type'', PStr ''application/json'')])])
   \<and> take 2 (trace (snd (lambda_handler reserved_schema_config demo_world demo_request cold_start)))
       = [SecretGet ''secret'', DbConnect]"
  by (simp add: handler_defs demo_defs valid_postgres invalid_select demo_sql demo_params
           del: findall_tag.simps)

theorem reserved_schema_accepted_witness:
  "\<exists>r. fst (lambda_handler reserved_schema_config demo_world demo_request cold_start) = Inr r"
  using reserved_schema_accepted by simp

text \<open>
  C3. The cache cluster does not answer. \<open>connect_to_cluster\<close> logs the error and leaves
  \<open>valkey_client\<close> unset; \<open>search\<close> then raises, the handler closes the connection and
  ends with the exception: the request does not go on as on a cache miss.
\<close>

theorem unreachable_cache_raises:
  "\<not> cluster_reachable unreachable_world
   \<and> fst (lambda_handler demo_config unreachable_world demo_request cold_start)
       = Inl AttributeError
   \<and> trace (snd (lambda_handler demo_config unreachable_world demo_request cold_start)) =
       [SecretGet ''secret'', DbConnect, EmbeddingInvoke ''How many properties are there?'',
        CacheConnect ''memdb'', DbClose]
   \<and> error_log (snd (lambda_handler demo_config unreachable_world demo_request cold_start)) =
       [''Error connecting to Valkey cluster'']"
  by (simp add: handler_defs demo_defs valid_postgres del: findall_tag.simps)

theorem unreachable_cache_raises_witness:
  "\<exists>e. fst (lambda_handler demo_config unreachable_world demo_request cold_start) = Inl e"
  using unreachable_cache_raises by simp

section \<open>Trace of the query pipeline\<close>

lemma ext_refl: "extends_trace ok s s"
  by (simp add: extends_trace_def)


lemma ext_emit: "ok e \<Longrightarrow> extends_trace ok s s1 \<Longrightarrow> extends_trace ok s (emit e s1)"
  by (auto simp: extends_trace_def emit_def)








lemma call_bedrock_sql_ext:
  "extends_trace pipeline_effect s (snd (call_bedrock w (SqlPrompt q sch) s))"
  by (auto simp: call_bedrock_def ext_refl intro!: ext_emit)








section \<open>Shape of the responses\<close>

lemma get_sql_truthy:
  "get_sql_from_bedrock w q sch s = (Inr sql, s') \<Longrightarrow> py_truthy sql"
  by (auto simp: get_sql_from_bedrock_def call_bedrock_def Let_def no_sql_response_def
           split: sum.splits option.splits if_splits)

lemma describe_shape:
  "describe_results_from_query w sql rt sch s = (Inr r, s') \<Longrightarrow>
     py_getitem r ''statusCode'' = Inr (PInt 200)
     \<and> (\<exists>b c. py_getitem r ''body'' = Inr b \<and> py_getitem b ''column_names'' = Inr c)"
  by (auto simp: describe_results_from_query_def call_bedrock_def split: sum.splits prod.splits)

lemma cache_miss_shape:
  assumes "cache_miss w p e s = (Inr r, s')"
  shows "py_getitem r ''statusCode'' = Inr (PInt 200)
     \<and> (\<exists>b c. py_getitem r ''body'' = Inr b \<and> py_getitem b ''column_names'' = Inr c)"
  using assms
  by (auto simp: cache_miss_def Let_def split: sum.splits prod.splits if_splits
           dest: get_sql_truthy describe_shape)

lemma cache_hit_shape:
  assumes "cache_hit_response w ce cl = Inr r"
  shows "py_getitem r ''statusCode'' = Inr (PInt 200)
     \<and> (\<exists>b c. py_getitem r ''body'' = Inr b \<and> py_getitem b ''column_names'' = Inr c)"
  using assms
  by (auto simp: cache_hit_response_def Let_def split: sum.splits option.splits list.splits)

lemma resolve_shape:
  assumes "resolve cfg w p s = (Inr r, s')"
  shows "py_getitem r ''statusCode'' = Inr (PInt 200)
     \<and> (\<exists>b c. py_getitem r ''body'' = Inr b \<and> py_getitem b ''column_names'' = Inr c)"
  using assms
  by (auto simp: resolve_def Let_def split: sum.splits prod.splits bool.splits
           dest: cache_miss_shape cache_hit_shape)

lemma query_pipeline_shape:
  assumes "query_pipeline cfg w p s = (Inr r, s')"
  shows "py_getitem r ''statusCode'' = Inr (PInt 200)
     \<and> (\<exists>b c. py_getitem r ''body'' = Inr b \<and> py_getitem b ''column_names'' = Inr c)"
  using assms
  by (auto simp: query_pipeline_def split: sum.splits prod.splits if_splits
           dest: resolve_shape)



lemma demo_run:
  "fst (lambda_handler demo_config demo_world demo_request cold_start) =
   Inr (PDict [(''statusCode'', PInt 200),
     (''body'', PDict [(''response'', PStr ''There are 5 properties.''),
        (''query'', PTuple [PStr ''SELECT count(*) FROM us_housing_properties'', PList []]),
        (''query_results'', PList [PTuple [PInt 5]]),
        (''column_names'', PList [PStr ''count'']),
        (''cache_id'', PNone)]),
     (''headers'', PDict [(''Content-Type'', PStr ''application/json'')])])"
  by (simp add: handler_defs demo_defs valid_postgres demo_sql demo_params
           del: findall_tag.simps)

text \<open>
  Whatever the collaborators answer, a response the handler returns has status code 200:
  \<open>get_sql_from_bedrock\<close> only returns values that are true as a condition, so the branch
  that builds the 500 response is never taken.
\<close>

theorem handler_never_returns_500:
  "fst (lambda_handler cfg w event s) = Inr r \<Longrightarrow> py_getitem r ''statusCode'' = Inr (PInt 200)"
proof -
  assume a: "fst (lambda_handler cfg w event s) = Inr r"
  then have h: "lambda_handler cfg w event s = (Inr r, snd (lambda_handler cfg w event s))"
    by (metis prod.collapse)
  show ?thesis using h
    by (auto simp: lambda_handler_def Let_def follow_up_response_def
             split: sum.splits prod.splits if_splits option.splits
             dest: query_pipeline_shape)
qed

theorem handler_never_returns_500_witness:
  "\<exists>r. fst (lambda_handler demo_config demo_world demo_request cold_start) = Inr r
       \<and> py_getitem r ''statusCode'' = Inr (PInt 200)"
  using handler_never_returns_500 [OF demo_run] demo_run by simp

section \<open>Requests without conversation context\<close>







section \<open>Unreachable cache cluster\<close>

text \<open>
  With an unreachable cache cluster every request that gets as far as the \<open>try\<close> block
  ends with an exception: the embedding call raises, or \<open>search\<close> does.
\<close>

theorem unreachable_cache_is_fatal:
  assumes "\<not> cluster_reachable w"
  shows "\<exists>e. fst (resolve cfg w p s) = Inl e"
  using assms
  by (auto simp: resolve_def search_def Let_def get_embedding_def split: sum.splits)

theorem unreachable_cache_is_fatal_witness:
  "\<not> cluster_reachable unreachable_world
   \<and> (\<exists>e. fst (resolve demo_config unreachable_world ''How many properties are there?''
                  cold_start) = Inl e)"
proof -
  have h: "\<not> cluster_reachable unreachable_world"
    by (simp add: unreachable_world_def)
  from unreachable_cache_is_fatal [OF h] h show ?thesis by blast
qed

section \<open>Vector serialisation\<close>

lemma float32_bytes_length: "length (float32_bytes x) = 4"
  by (simp add: float32_bytes_def)

text \<open>The binary form of a vector has four bytes per element.\<close>

theorem vector_to_bytes_length: "length (vector_to_bytes w vector) = 4 * length vector"
  by (induction vector) (simp_all add: vector_to_bytes_def float32_bytes_length)

section \<open>Identifier validation on sample names\<close>

text \<open>
  A leading digit, the prefix \<open>pg_\<close>, a reserved word in either case and a name of 64
  bytes are rejected; a name of 63 bytes and ordinary names are accepted.
\<close>

theorem identifier_examples:
  "\<not> is_valid_postgres_identifier ''123bad''
   \<and> \<not> is_valid_postgres_identifier ''pg_internal''
   \<and> \<not> is_valid_postgres_identifier ''select''
   \<and> \<not> is_valid_postgres_identifier ''SELECT''
   \<and> \<not> is_valid_postgres_identifier (replicate 64 CHR ''a'')
   \<and> is_valid_postgres_identifier (replicate 63 CHR ''a'')
   \<and> is_valid_postgres_identifier ''valid_name''
   \<and> is_valid_postgres_identifier ''_ok123''"
  by code_simp

end
